theory Spec2Isabelle
  imports Complex_Main
begin

section \<open>Strings and the HTML escaper of \<^verbatim>\<open>src/index.tsx\<close>\<close>

text \<open>
  A JavaScript string is a sequence of UTF-16 code units. The model writes it as a
  \<^typ>\<open>string\<close>, each \<^typ>\<open>char\<close> standing for one code unit below 256; every
  character the program tests for (the five HTML specials, the backtick, the letters
  of \<^verbatim>\<open>json\<close> and white space) lies in that range.
\<close>

text \<open>
  \<^verbatim>\<open>s.replace(/c/g, rep)\<close> for a pattern that is one literal character and a
  replacement text without \<^verbatim>\<open>$\<close>: every occurrence of the character, left to
  right, is replaced, and the scan continues after the match (never inside the
  replacement).
\<close>

fun replace_char :: "char \<Rightarrow> string \<Rightarrow> string \<Rightarrow> string" where
  "replace_char c rep [] = []"
| "replace_char c rep (x # xs) =
     (if x = c then rep @ replace_char c rep xs else x # replace_char c rep xs)"

text \<open>
  \<^verbatim>\<open>escapeHtml\<close> (lines 186-193): five global replacements, applied in the order
  of the source, the ampersand first.
\<close>

definition escapeHtml :: "string \<Rightarrow> string" where
  "escapeHtml unsafe =
     replace_char (CHR 0x27) ''&#039;''
       (replace_char (CHR 0x22) ''&quot;''
         (replace_char (CHR ''>'') ''&gt;''
           (replace_char (CHR ''<'') ''&lt;''
             (replace_char (CHR ''&'') ''&amp;'' unsafe))))"

text \<open>
  The decoder the round-trip property speaks of. It is not part of the source: it
  follows the usual reading of HTML character references, restricted to the five
  references the escaper can produce. A reference is recognised at an ampersand only;
  any other character, and an ampersand that starts none of the five, is copied.
\<close>

fun entity_decode :: "string \<Rightarrow> string" where
  "entity_decode [] = []"
| "entity_decode (c # cs) =
     (if c = CHR ''&'' \<and> take 4 cs = ''amp;'' then CHR ''&'' # entity_decode (drop 4 cs)
      else if c = CHR ''&'' \<and> take 3 cs = ''lt;'' then CHR ''<'' # entity_decode (drop 3 cs)
      else if c = CHR ''&'' \<and> take 3 cs = ''gt;'' then CHR ''>'' # entity_decode (drop 3 cs)
      else if c = CHR ''&'' \<and> take 5 cs = ''quot;'' then CHR 0x22 # entity_decode (drop 5 cs)
      else if c = CHR ''&'' \<and> take 5 cs = ''#039;'' then CHR 0x27 # entity_decode (drop 5 cs)
      else c # entity_decode cs)"

text \<open>The five entity sequences the escaper writes.\<close>

definition entities :: "string list" where
  "entities = [''&amp;'', ''&lt;'', ''&gt;'', ''&quot;'', ''&#039;'']"

text \<open>What one character becomes under \<^const>\<open>escapeHtml\<close>.\<close>

definition escape_char :: "char \<Rightarrow> string" where
  "escape_char c =
     (if c = CHR ''&'' then ''&amp;''
      else if c = CHR ''<'' then ''&lt;''
      else if c = CHR ''>'' then ''&gt;''
      else if c = CHR 0x22 then ''&quot;''
      else if c = CHR 0x27 then ''&#039;''
      else [c])"

text \<open>An entity sequence starts at position \<open>i\<close> of \<open>out\<close>.\<close>

definition begins_entity :: "string \<Rightarrow> nat \<Rightarrow> bool" where
  "begins_entity out i = (\<exists>e \<in> set entities. take (length e) (drop i out) = e)"

section \<open>White space, trimming and the fence pattern\<close>

text \<open>
  The white space of \<^verbatim>\<open>\s\<close> and of \<^verbatim>\<open>String.prototype.trim\<close> (the same set
  in ECMAScript), as far as it lies below 256: tab, line feed, vertical tab, form
  feed, carriage return, space and the no-break space.
\<close>

definition is_space :: "char \<Rightarrow> bool" where
  "is_space c = (c \<in> {CHR 0x09, CHR 0x0A, CHR 0x0B, CHR 0x0C, CHR 0x0D, CHR 0x20, CHR 0xA0})"

definition trim :: "string \<Rightarrow> string" where
  "trim s = rev (dropWhile is_space (rev (dropWhile is_space s)))"

text \<open>
  The pattern of line 99 is \<^verbatim>\<open>/^```json\s*|```\s*$/g\<close>, without the multi-line
  flag: its first alternative can match at the start of the text only, its second
  only where three backticks are followed by nothing but white space up to the end
  of the text. \<open>closing_fence s\<close> says that the second alternative matches at the
  head of \<open>s\<close>.
\<close>

definition closing_fence :: "string \<Rightarrow> bool" where
  "closing_fence s = (take 3 s = ''```'' \<and> list_all is_space (drop 3 s))"

text \<open>
  The scan for the second alternative, position by position from the left; its match
  runs to the end of the text, so the scan stops there.
\<close>

fun strip_closing :: "string \<Rightarrow> string" where
  "strip_closing [] = []"
| "strip_closing (c # cs) =
     (if closing_fence (c # cs) then [] else c # strip_closing cs)"

text \<open>
  \<^verbatim>\<open>text.replace(/^```json\s*|```\s*$/g, '')\<close>: at position 0 the first
  alternative is tried first and takes \<^verbatim>\<open>```json\<close> with all the white space after
  it (the star is greedy and nothing follows it); the scan then goes on behind the
  match, where only the second alternative can still match.
\<close>

definition strip_fences :: "string \<Rightarrow> string" where
  "strip_fences s =
     (if take 7 s = ''```json'' then strip_closing (dropWhile is_space (drop 7 s))
      else strip_closing s)"

text \<open>The \<^verbatim>\<open>cleanedText\<close> of line 99.\<close>

definition cleanedText :: "string \<Rightarrow> string" where
  "cleanedText s = trim (strip_fences s)"

text \<open>
  A body wrapped in a fence: the opening fence, white space, the body, white space,
  the closing fence, white space.
\<close>

definition fenced :: "string \<Rightarrow> string \<Rightarrow> string \<Rightarrow> string \<Rightarrow> string \<Rightarrow> string" where
  "fenced opening ws1 body ws2 ws3 = opening @ ws1 @ body @ ws2 @ ''```'' @ ws3"

section \<open>Values, exceptions and the host\<close>

text \<open>
  The numbers \<^verbatim>\<open>JSON.parse\<close> can return: a finite value (the negative zero is
  the value 0 here) or an infinity, which an overflowing literal gives. It never
  returns NaN.
\<close>

datatype jsnumber = Finite rat | PosInfinity | NegInfinity

text \<open>
  A value returned by \<^verbatim>\<open>JSON.parse\<close>. An object is the list of its own
  properties; where a key occurs twice the later entry is the property's value, as
  in \<^verbatim>\<open>JSON.parse\<close>.
\<close>

datatype json =
    JNull
  | JBool bool
  | JNum jsnumber
  | JStr string
  | JArr "json list"
  | JObj "(string \<times> json) list"

text \<open>
  A thrown value, as line 111 tells them apart: an instance of \<^verbatim>\<open>Error\<close> with
  its message, or anything else.
\<close>

datatype thrown = ErrorObj string | NonError

text \<open>
  What the program takes from the JavaScript engine and does not define itself:
  \<^item> \<open>json_parse\<close> is \<^verbatim>\<open>JSON.parse\<close>, which returns a value or throws;
  \<^item> \<open>greater_zero v\<close> is the comparison \<^verbatim>\<open>v > 0\<close> for a value \<open>v\<close> that
    \<^verbatim>\<open>JSON.parse\<close> returned (it converts \<open>v\<close> to a number first, which may
    throw);
  \<^item> \<open>type_error_text\<close> is the message of the \<^verbatim>\<open>TypeError\<close> the engine raises
    in this run (at most one is raised: the first one leaves \<^verbatim>\<open>displayResults\<close>).
\<close>

record host =
  json_parse :: "string \<Rightarrow> thrown + json"
  greater_zero :: "json \<Rightarrow> thrown + bool"
  type_error_text :: string

definition type_error :: "host \<Rightarrow> thrown + 'a" where
  "type_error h = Inl (ErrorObj (type_error_text h))"

text \<open>Sequencing of steps that may throw: the first exception ends the sequence.\<close>

definition and_then :: "thrown + 'a \<Rightarrow> ('a \<Rightarrow> thrown + 'b) \<Rightarrow> thrown + 'b" where
  "and_then m f = (case m of Inl e \<Rightarrow> Inl e | Inr x \<Rightarrow> f x)"

text \<open>
  Reading one of the three outline fields, \<^verbatim>\<open>data.painPoints\<close>,
  \<^verbatim>\<open>data.proposedSolution\<close> or \<^verbatim>\<open>data.recommendedTech\<close>. None of these names is
  a property of a prototype, so the read gives \<^verbatim>\<open>undefined\<close> (\<open>None\<close>) on
  anything but an object that has the key, and throws on \<^verbatim>\<open>null\<close>.
\<close>

fun read_field :: "host \<Rightarrow> json \<Rightarrow> string \<Rightarrow> thrown + json option" where
  "read_field h JNull k = type_error h"
| "read_field h (JObj kvs) k = Inr (map_of (rev kvs) k)"
| "read_field h v k = Inr None"

text \<open>
  The result of \<^verbatim>\<open>v?.length\<close>: \<^verbatim>\<open>undefined\<close>, the length of a string or of an
  array, or whatever value an object stores under the key \<^verbatim>\<open>length\<close>.
\<close>

datatype length_result = Undefined | Length nat | Stored json

fun optional_length :: "json option \<Rightarrow> length_result" where
  "optional_length None = Undefined"
| "optional_length (Some JNull) = Undefined"
| "optional_length (Some (JBool b)) = Undefined"
| "optional_length (Some (JNum n)) = Undefined"
| "optional_length (Some (JStr s)) = Length (length s)"
| "optional_length (Some (JArr xs)) = Length (length xs)"
| "optional_length (Some (JObj kvs)) =
     (case map_of (rev kvs) ''length'' of None \<Rightarrow> Undefined | Some v \<Rightarrow> Stored v)"

text \<open>\<^verbatim>\<open>... > 0\<close>: \<^verbatim>\<open>undefined\<close> converts to NaN, and no comparison with NaN holds.\<close>

fun is_positive :: "host \<Rightarrow> length_result \<Rightarrow> thrown + bool" where
  "is_positive h Undefined = Inr False"
| "is_positive h (Length n) = Inr (0 < n)"
| "is_positive h (Stored v) = greater_zero h v"

text \<open>The condition of \<^verbatim>\<open>v ? a : b\<close> for a field value.\<close>

fun truthy :: "json option \<Rightarrow> bool" where
  "truthy None = False"
| "truthy (Some JNull) = False"
| "truthy (Some (JBool b)) = b"
| "truthy (Some (JNum (Finite q))) = (q \<noteq> 0)"
| "truthy (Some (JNum PosInfinity)) = True"
| "truthy (Some (JNum NegInfinity)) = True"
| "truthy (Some (JStr s)) = (s \<noteq> [])"
| "truthy (Some (JArr xs)) = True"
| "truthy (Some (JObj kvs)) = True"

text \<open>
  \<^verbatim>\<open>escapeHtml(v)\<close> on a value that the type annotation calls a string but that
  comes from \<^verbatim>\<open>data: any\<close>: \<^verbatim>\<open>unsafe.replace\<close> is a function on a string only,
  and the call throws a \<^verbatim>\<open>TypeError\<close> on everything else.
\<close>

fun escapeHtml_value :: "host \<Rightarrow> json option \<Rightarrow> thrown + string" where
  "escapeHtml_value h (Some (JStr s)) = Inr (escapeHtml s)"
| "escapeHtml_value h v = type_error h"

text \<open>The callback of lines 140 and 155.\<close>

definition list_item :: "host \<Rightarrow> json \<Rightarrow> thrown + string" where
  "list_item h point =
     and_then (escapeHtml_value h (Some point)) (\<lambda>t. Inr (''<li>'' @ t @ ''</li>''))"

text \<open>\<^verbatim>\<open>xs.map(f)\<close> on an array, in index order; the first exception ends it.\<close>

fun map_throwing :: "('a \<Rightarrow> thrown + 'b) \<Rightarrow> 'a list \<Rightarrow> thrown + 'b list" where
  "map_throwing f [] = Inr []"
| "map_throwing f (x # xs) =
     and_then (f x) (\<lambda>y. and_then (map_throwing f xs) (\<lambda>ys. Inr (y # ys)))"

text \<open>
  \<^verbatim>\<open>v.map(f).join('')\<close> for a field value: an array maps and joins; nothing else
  has a callable \<^verbatim>\<open>map\<close> (an object parsed from JSON stores no function), so the
  call throws.
\<close>

fun map_join :: "host \<Rightarrow> (json \<Rightarrow> thrown + string) \<Rightarrow> json option \<Rightarrow> thrown + string" where
  "map_join h f (Some (JArr xs)) = and_then (map_throwing f xs) (\<lambda>ys. Inr (concat ys))"
| "map_join h f v = type_error h"

section \<open>The renderer: \<^verbatim>\<open>displayResults\<close> and \<^verbatim>\<open>displayError\<close>\<close>

text \<open>
  A grounding chunk of the response, as far as line 166 reads it: an optional
  \<^verbatim>\<open>web\<close> reference with an optional \<^verbatim>\<open>uri\<close> and an optional \<^verbatim>\<open>title\<close>.
\<close>

record web_ref =
  uri :: "string option"
  title :: "string option"

record chunk =
  web :: "web_ref option"

text \<open>The template of lines 136-142 around the joined items.\<close>

definition painPoints_open :: string where
  \<open>painPoints_open =
     ''\<newline>    <div class="result-section">\<newline>      <h2>Client's Pain Points</h2>\<newline>      <ul>\<newline>        ''\<close>

definition painPoints_close :: string where
  \<open>painPoints_close = ''\<newline>      </ul>\<newline>    </div>''\<close>

definition painPointsHtml :: "host \<Rightarrow> json \<Rightarrow> thrown + string" where
  "painPointsHtml h data =
     and_then (read_field h data ''painPoints'') (\<lambda>v.
     and_then (is_positive h (optional_length v)) (\<lambda>shown.
       if shown
       then and_then (map_join h (list_item h) v) (\<lambda>items.
              Inr (painPoints_open @ items @ painPoints_close))
       else Inr []))"

text \<open>The template of lines 144-149.\<close>

definition solution_open :: string where
  \<open>solution_open =
     ''\<newline>    <div class="result-section">\<newline>        <h2>Proposed Solution</h2>\<newline>        <p>''\<close>

definition solution_close :: string where
  \<open>solution_close = ''</p>\<newline>    </div>\<newline>    ''\<close>

definition solutionHtml :: "host \<Rightarrow> json \<Rightarrow> thrown + string" where
  "solutionHtml h data =
     and_then (read_field h data ''proposedSolution'') (\<lambda>v.
       if truthy v
       then and_then (escapeHtml_value h v) (\<lambda>t. Inr (solution_open @ t @ solution_close))
       else Inr [])"

text \<open>The template of lines 151-158.\<close>

definition tech_open :: string where
  \<open>tech_open =
     ''\<newline>    <div class="result-section">\<newline>        <h2>Recommended Tech Stack</h2>\<newline>        <ul class="tech-stack">\<newline>            ''\<close>

definition tech_close :: string where
  \<open>tech_close = ''\<newline>        </ul>\<newline>    </div>\<newline>    ''\<close>

definition techHtml :: "host \<Rightarrow> json \<Rightarrow> thrown + string" where
  "techHtml h data =
     and_then (read_field h data ''recommendedTech'') (\<lambda>v.
     and_then (is_positive h (optional_length v)) (\<lambda>shown.
       if shown
       then and_then (map_join h (list_item h) v) (\<lambda>items.
              Inr (tech_open @ items @ tech_close))
       else Inr []))"

text \<open>
  \<^verbatim>\<open>chunk.web.title || chunk.web.uri\<close>: the title when it is a non-empty string,
  else the \<^verbatim>\<open>uri\<close>, which may be \<^verbatim>\<open>undefined\<close>.
\<close>

definition link_text :: "web_ref \<Rightarrow> string option" where
  "link_text w = (case title w of Some t \<Rightarrow> if t \<noteq> [] then Some t else uri w | None \<Rightarrow> uri w)"

text \<open>\<^verbatim>\<open>${chunk.web.uri}\<close> in the template: \<^verbatim>\<open>undefined\<close> is written as that word.\<close>

definition interpolate :: "string option \<Rightarrow> string" where
  "interpolate v = (case v of Some t \<Rightarrow> t | None \<Rightarrow> ''undefined'')"

text \<open>\<^verbatim>\<open>escapeHtml\<close> on the link text: \<^verbatim>\<open>undefined.replace\<close> throws.\<close>

definition escapeHtml_text :: "host \<Rightarrow> string option \<Rightarrow> thrown + string" where
  "escapeHtml_text h v = (case v of Some t \<Rightarrow> Inr (escapeHtml t) | None \<Rightarrow> type_error h)"

text \<open>The three literal parts of the link of line 166.\<close>

definition link_open :: string where
  \<open>link_open = ''<li><a href="''\<close>

definition link_middle :: string where
  \<open>link_middle = ''" target="_blank" rel="noopener noreferrer">''\<close>

definition link_close :: string where
  \<open>link_close = ''</a></li>''\<close>

text \<open>The callback of lines 165-167.\<close>

definition source_item :: "host \<Rightarrow> chunk \<Rightarrow> thrown + string" where
  "source_item h c =
     (case web c of
        Some w \<Rightarrow>
          and_then (escapeHtml_text h (link_text w)) (\<lambda>t.
            Inr (link_open @ interpolate (uri w) @ link_middle @ t @ link_close))
      | None \<Rightarrow> Inr [])"

text \<open>The template of lines 160-170.\<close>

definition sources_open :: string where
  \<open>sources_open =
     ''\<newline>    <div class="result-section sources-section">\<newline>        <h2>Sources</h2>\<newline>        <p>This outline was generated using information from the following sources:</p>\<newline>        <ul>\<newline>            ''\<close>

definition sources_close :: string where
  \<open>sources_close = ''\<newline>        </ul>\<newline>    </div>\<newline>    ''\<close>

text \<open>
  \<^verbatim>\<open>groundingChunks?.length > 0\<close> is false for \<^verbatim>\<open>undefined\<close> and for the empty
  array, and true for every other array.
\<close>

definition sourcesHtml :: "host \<Rightarrow> chunk list option \<Rightarrow> thrown + string" where
  "sourcesHtml h groundingChunks =
     (case groundingChunks of
        None \<Rightarrow> Inr []
      | Some cs \<Rightarrow>
          if 0 < length cs
          then and_then (map_throwing (source_item h) cs) (\<lambda>items.
                 Inr (sources_open @ concat items @ sources_close))
          else Inr [])"

text \<open>
  The view, the busy flag and the input field, with a log of the effects the
  properties speak of: every call of \<^verbatim>\<open>setLoading\<close> and every request sent to the
  remote model. \<open>loadingMessage\<close> is the text of the indicator's paragraph, \<open>None\<close>
  when the indicator has no paragraph (\<^verbatim>\<open>querySelector('p')\<close> gives \<^verbatim>\<open>null\<close>).
  Writes to the console are not modelled.
\<close>

datatype request = CleanRequest string | OutlineRequest "string option"

datatype event = SetLoading bool | RemoteCall request

record state =
  isLoading :: bool
  inputValue :: string
  buttonDisabled :: bool
  indicatorHidden :: bool
  loadingMessage :: "string option"
  resultsHtml :: string
  resultsError :: bool
  events :: "event list"

text \<open>The template of lines 172-177 around the four fragments.\<close>

definition results_template :: "string \<Rightarrow> string \<Rightarrow> string \<Rightarrow> string \<Rightarrow> string" where
  "results_template p s t c =
     ''\<newline>        '' @ p @ ''\<newline>        '' @ s @ ''\<newline>        '' @ t @
     ''\<newline>        '' @ c @ ''\<newline>    ''"

text \<open>
  \<^verbatim>\<open>displayResults\<close> (lines 135-178): the four fragments are computed in the order
  of the source, and the view is written once, at the end; an exception in a
  fragment leaves the view as it was.
\<close>

definition displayResults :: "host \<Rightarrow> json \<Rightarrow> chunk list option \<Rightarrow> state \<Rightarrow> thrown + state" where
  "displayResults h data groundingChunks st =
     and_then (painPointsHtml h data) (\<lambda>p.
     and_then (solutionHtml h data) (\<lambda>s.
     and_then (techHtml h data) (\<lambda>t.
     and_then (sourcesHtml h groundingChunks) (\<lambda>c.
       Inr (st\<lparr>resultsHtml := results_template p s t c\<rparr>)))))"

text \<open>\<^verbatim>\<open>displayError\<close> (lines 181-184).\<close>

definition displayError :: "string \<Rightarrow> state \<Rightarrow> state" where
  "displayError message st =
     st\<lparr>resultsError := True, resultsHtml := ''<p>'' @ escapeHtml message @ ''</p>''\<rparr>"

section \<open>The controller: \<^verbatim>\<open>setLoading\<close> and \<^verbatim>\<open>handleGenerateClick\<close>\<close>

definition default_loading_message :: string where
  "default_loading_message = ''Analyzing description and crafting your outline...''"

text \<open>\<^verbatim>\<open>setLoading\<close> (lines 119-133).\<close>

definition setLoading :: "bool \<Rightarrow> string \<Rightarrow> state \<Rightarrow> state" where
  "setLoading flag message st =
     (let st1 = st\<lparr>isLoading := flag,
                    buttonDisabled := flag,
                    indicatorHidden := (\<not> flag),
                    loadingMessage := map_option (\<lambda>old. message) (loadingMessage st),
                    events := events st @ [SetLoading flag]\<rparr>
      in if flag then st1\<lparr>resultsHtml := [], resultsError := False\<rparr> else st1)"

text \<open>
  The response of \<^verbatim>\<open>generateContent\<close>, as far as the program reads it:
  \<^verbatim>\<open>response.text\<close>, which the library may leave \<^verbatim>\<open>undefined\<close>, and the result
  of \<^verbatim>\<open>response.candidates?.[0]?.groundingMetadata?.groundingChunks\<close>.
\<close>

record response =
  text_of :: "string option"
  groundingChunks_of :: "chunk list option"

text \<open>
  The remote model: what the awaited call of \<^verbatim>\<open>generateContent\<close> settles to for
  a request, a response or a thrown value. The model describes the runs in which the
  awaited calls settle.
\<close>

type_synonym remote = "request \<Rightarrow> thrown + response"

definition remote_call :: "remote \<Rightarrow> request \<Rightarrow> state \<Rightarrow> (thrown + response) \<times> state" where
  "remote_call ai req st = (ai req, st\<lparr>events := events st @ [RemoteCall req]\<rparr>)"

text \<open>\<^verbatim>\<open>cleanDescription\<close> (lines 29-44): one request, whose response text is returned.\<close>

definition cleanDescription :: "remote \<Rightarrow> string \<Rightarrow> state \<Rightarrow> (thrown + string option) \<times> state" where
  "cleanDescription ai projectDescription st =
     (case remote_call ai (CleanRequest projectDescription) st of
        (Inl e, st1) \<Rightarrow> (Inl e, st1)
      | (Inr r, st1) \<Rightarrow> (Inr (text_of r), st1))"

text \<open>\<^verbatim>\<open>getProposalOutline\<close> (lines 49-75): one request, whose response is returned.\<close>

definition getProposalOutline :: "remote \<Rightarrow> string option \<Rightarrow> state \<Rightarrow> (thrown + response) \<times> state" where
  "getProposalOutline ai cleanedDescription st =
     remote_call ai (OutlineRequest cleanedDescription) st"

definition format_error_message :: string where
  "format_error_message = ''The AI returned an invalid format. Please try again.''"

text \<open>
  The inner \<^verbatim>\<open>try\<close> of lines 97-104: \<^verbatim>\<open>response.text.replace\<close> throws on an
  \<^verbatim>\<open>undefined\<close> text and \<^verbatim>\<open>JSON.parse\<close> may throw; the \<^verbatim>\<open>catch\<close> replaces
  whatever was thrown by the format error.
\<close>

definition parse_response :: "host \<Rightarrow> response \<Rightarrow> thrown + json" where
  "parse_response h r =
     (case and_then (case text_of r of None \<Rightarrow> type_error h | Some t \<Rightarrow> Inr (cleanedText t))
             (json_parse h)
      of Inl parseError \<Rightarrow> Inl (ErrorObj format_error_message)
       | Inr resultJson \<Rightarrow> Inr resultJson)"

text \<open>The body of the outer \<^verbatim>\<open>try\<close> (lines 90-107), with the state it leaves.\<close>

definition try_block :: "host \<Rightarrow> remote \<Rightarrow> string \<Rightarrow> state \<Rightarrow> (thrown + unit) \<times> state" where
  "try_block h ai projectDescription st =
     (case cleanDescription ai projectDescription st of
        (Inl e, st1) \<Rightarrow> (Inl e, st1)
      | (Inr cleanedDescription, st1) \<Rightarrow>
          (let st2 = setLoading True ''Researching latest AI solutions...'' st1 in
           case getProposalOutline ai cleanedDescription st2 of
             (Inl e, st3) \<Rightarrow> (Inl e, st3)
           | (Inr r, st3) \<Rightarrow>
               (case parse_response h r of
                  Inl e \<Rightarrow> (Inl e, st3)
                | Inr resultJson \<Rightarrow>
                    (case displayResults h resultJson (groundingChunks_of r) st3 of
                       Inl e \<Rightarrow> (Inl e, st3)
                     | Inr st4 \<Rightarrow> (Inr (), st4)))))"

definition unknown_error_message :: string where
  "unknown_error_message = ''An unknown error occurred.''"

definition validation_message :: string where
  "validation_message = ''Please paste a project description first.''"

definition error_prefix :: string where
  "error_prefix = ''An error occurred while generating the outline: ''"

text \<open>The \<^verbatim>\<open>catch\<close> of lines 109-112.\<close>

definition catch_block :: "thrown \<Rightarrow> state \<Rightarrow> state" where
  "catch_block error st =
     (let errorMessage = (case error of ErrorObj m \<Rightarrow> m | NonError \<Rightarrow> unknown_error_message)
      in displayError (error_prefix @ errorMessage) st)"

text \<open>\<^verbatim>\<open>handleGenerateClick\<close> (lines 78-116).\<close>

definition handleGenerateClick :: "host \<Rightarrow> remote \<Rightarrow> state \<Rightarrow> state" where
  "handleGenerateClick h ai st =
     (if isLoading st then st
      else
        let projectDescription = trim (inputValue st) in
        if projectDescription = [] then displayError validation_message st
        else
          let st1 = setLoading True ''Cleaning project description...'' st;
              st2 = (case try_block h ai projectDescription st1 of
                       (Inl error, st') \<Rightarrow> catch_block error st'
                     | (Inr u, st') \<Rightarrow> st')
          in setLoading False default_loading_message st2)"

section \<open>Outline fields the renderer takes\<close>

text \<open>
  The value of an outline field of a payload that is not \<^verbatim>\<open>null\<close>: the property
  of an object, \<open>None\<close> where the object has no such key or the payload is no object.
\<close>

definition field :: "json \<Rightarrow> string \<Rightarrow> json option" where
  "field data k = (case data of JObj kvs \<Rightarrow> map_of (rev kvs) k | _ \<Rightarrow> None)"

text \<open>The list items of an array of strings, joined.\<close>

definition list_items :: "string list \<Rightarrow> string" where
  "list_items ss = concat (map (\<lambda>s. ''<li>'' @ escapeHtml s @ ''</li>'') ss)"

text \<open>The strings of an array whose elements are all strings.\<close>

fun strings_of :: "json list \<Rightarrow> string list option" where
  "strings_of [] = Some []"
| "strings_of (JStr s # xs) = map_option ((#) s) (strings_of xs)"
| "strings_of (v # xs) = None"

text \<open>
  The fragment of a list field in the forms the renderer takes without an
  exception, \<open>None\<close> in every other form. The section is left out for an absent
  field, for \<^verbatim>\<open>null\<close>, a boolean, a number, the empty string, the empty array and
  an object without a \<^verbatim>\<open>length\<close>; a non-empty array of strings gives the section
  with its items.
\<close>

fun list_section :: "string \<Rightarrow> string \<Rightarrow> json option \<Rightarrow> string option" where
  "list_section opn cls None = Some []"
| "list_section opn cls (Some JNull) = Some []"
| "list_section opn cls (Some (JBool b)) = Some []"
| "list_section opn cls (Some (JNum n)) = Some []"
| "list_section opn cls (Some (JStr s)) = (if s = [] then Some [] else None)"
| "list_section opn cls (Some (JArr xs)) =
     (if xs = [] then Some []
      else map_option (\<lambda>ss. opn @ list_items ss @ cls) (strings_of xs))"
| "list_section opn cls (Some (JObj kvs)) =
     (if map_of (rev kvs) ''length'' = None then Some [] else None)"

text \<open>
  The same for the solution: the section is left out for an absent field, for
  \<^verbatim>\<open>null\<close>, \<^verbatim>\<open>false\<close>, zero and the empty string; a non-empty string gives the
  section.
\<close>

fun solution_section :: "json option \<Rightarrow> string option" where
  "solution_section None = Some []"
| "solution_section (Some JNull) = Some []"
| "solution_section (Some (JBool b)) = (if b then None else Some [])"
| "solution_section (Some (JNum (Finite q))) = (if q = 0 then Some [] else None)"
| "solution_section (Some (JNum PosInfinity)) = None"
| "solution_section (Some (JNum NegInfinity)) = None"
| "solution_section (Some (JStr s)) =
     Some (if s = [] then [] else solution_open @ escapeHtml s @ solution_close)"
| "solution_section (Some (JArr xs)) = None"
| "solution_section (Some (JObj kvs)) = None"

section \<open>Example inputs\<close>

text \<open>A host, a view and two remote models on which the theorems below are run.\<close>

definition example_host :: host where
  \<open>example_host =
     \<lparr>json_parse = (\<lambda>s. if s = ''{}'' then Inr (JObj [])
                         else if s = ''{"painPoints":"abc"}''
                           then Inr (JObj [(''painPoints'', JStr ''abc'')])
                         else Inl (ErrorObj ''Unexpected end of JSON input'')),
      greater_zero = (\<lambda>v. Inr False),
      type_error_text = ''data.painPoints.map is not a function''\<rparr>\<close>

definition example_state :: state where
  "example_state =
     \<lparr>isLoading = False, inputValue = '' Build a chatbot '', buttonDisabled = False,
      indicatorHidden = True, loadingMessage = Some default_loading_message,
      resultsHtml = ''<p>old</p>'', resultsError = False, events = []\<rparr>"

definition failing_remote :: remote where
  "failing_remote = (\<lambda>req. Inl (ErrorObj ''quota exceeded''))"

definition truncated_remote :: remote where
  \<open>truncated_remote =
     (\<lambda>req. case req of
        CleanRequest d \<Rightarrow> Inr \<lparr>text_of = Some ''chatbot'', groundingChunks_of = None\<rparr>
      | OutlineRequest c \<Rightarrow> Inr \<lparr>text_of = Some ''{"painPoints": ['', groundingChunks_of = None\<rparr>)\<close>

text \<open>A citation whose \<^verbatim>\<open>uri\<close> closes the attribute and opens a script element.\<close>

definition script_chunk :: chunk where
  \<open>script_chunk = \<lparr>web = Some \<lparr>uri = Some ''"><script>alert(1)</script>'', title = Some ''x''\<rparr>\<rparr>\<close>

text \<open>A remote model whose outline has a string where the list of pain points belongs.\<close>

definition wrong_type_remote :: remote where
  \<open>wrong_type_remote =
     (\<lambda>req. case req of
        CleanRequest d \<Rightarrow> Inr \<lparr>text_of = Some ''chatbot'', groundingChunks_of = None\<rparr>
      | OutlineRequest c \<Rightarrow>
          Inr \<lparr>text_of = Some ''{"painPoints":"abc"}'', groundingChunks_of = None\<rparr>)\<close>

text \<open>
  An outline without the proposed solution and with a number where the list of
  technologies belongs.
\<close>

definition tolerated_outline :: json where
  "tolerated_outline =
     JObj [(''painPoints'', JArr [JStr ''A'', JStr ''B'']),
           (''recommendedTech'', JNum (Finite 3))]"

text \<open>A remote model that wraps the empty object in a bare fence.\<close>

definition bare_fence_remote :: remote where
  \<open>bare_fence_remote =
     (\<lambda>req. case req of
        CleanRequest d \<Rightarrow> Inr \<lparr>text_of = Some ''chatbot'', groundingChunks_of = None\<rparr>
      | OutlineRequest c \<Rightarrow>
          Inr \<lparr>text_of = Some ''```\<newline>{}\<newline>```'', groundingChunks_of = None\<rparr>)\<close>


section \<open>Properties of the escaper\<close>

lemma replace_char_append:
  "replace_char c rep (xs @ ys) = replace_char c rep xs @ replace_char c rep ys"
  by (induction xs) simp_all

lemma escapeHtml_Nil: "escapeHtml [] = []"
  by (simp add: escapeHtml_def)

lemma escapeHtml_single: "escapeHtml [c] = escape_char c"
  by (simp add: escapeHtml_def escape_char_def)

lemma escapeHtml_append: "escapeHtml (xs @ ys) = escapeHtml xs @ escapeHtml ys"
  by (simp add: escapeHtml_def replace_char_append)

lemma escapeHtml_Cons: "escapeHtml (c # cs) = escape_char c @ escapeHtml cs"
  using escapeHtml_append [of "[c]" cs] by (simp add: escapeHtml_single)

lemma escape_char_no_special:
  "x \<in> set (escape_char c) \<Longrightarrow> x \<noteq> CHR ''<'' \<and> x \<noteq> CHR ''>'' \<and> x \<noteq> CHR 0x22 \<and> x \<noteq> CHR 0x27"
  by (auto simp: escape_char_def split: if_splits)

lemma escapeHtml_no_special:
  "x \<in> set (escapeHtml s) \<Longrightarrow> x \<noteq> CHR ''<'' \<and> x \<noteq> CHR ''>'' \<and> x \<noteq> CHR 0x22 \<and> x \<noteq> CHR 0x27"
proof (induction s)
  case Nil
  then show ?case by (simp add: escapeHtml_Nil)
next
  case (Cons c s)
  then show ?case using escape_char_no_special [of x c] by (auto simp: escapeHtml_Cons)
qed

lemma entity_decode_escape_char:
  "entity_decode (escape_char c @ rest) = c # entity_decode rest"
  by (simp add: escape_char_def)

lemma entity_decode_escapeHtml: "entity_decode (escapeHtml s) = s"
  by (induction s) (simp_all add: escapeHtml_Nil escapeHtml_Cons entity_decode_escape_char)

lemma begins_entity_append_left:
  assumes "begins_entity xs i"
  shows "begins_entity (xs @ ys) i"
proof -
  from assms obtain e where e: "e \<in> set entities" "take (length e) (drop i xs) = e"
    by (auto simp: begins_entity_def)
  then have "length e \<le> length xs - i"
    by (metis length_drop length_take min.absorb_iff2 min.cobounded1 min.commute)
  with e have "take (length e) (drop i (xs @ ys)) = e" by simp
  with e show ?thesis unfolding begins_entity_def by blast
qed

lemma begins_entity_append_right:
  assumes "begins_entity ys i"
  shows "begins_entity (xs @ ys) (length xs + i)"
  using assms by (simp add: begins_entity_def)

lemma escape_char_amp:
  "i < length (escape_char c) \<Longrightarrow> escape_char c ! i = CHR ''&'' \<Longrightarrow> begins_entity (escape_char c) i"
  by (auto simp: escape_char_def begins_entity_def entities_def nth_Cons' split: if_splits)

lemma escapeHtml_amp:
  "i < length (escapeHtml s) \<Longrightarrow> escapeHtml s ! i = CHR ''&'' \<Longrightarrow> begins_entity (escapeHtml s) i"
proof (induction s arbitrary: i)
  case Nil
  then show ?case by (simp add: escapeHtml_Nil)
next
  case (Cons c s)
  show ?case
  proof (cases "i < length (escape_char c)")
    case True
    with Cons.prems have "escape_char c ! i = CHR ''&''"
      by (simp add: escapeHtml_Cons nth_append)
    with True have "begins_entity (escape_char c) i" by (rule escape_char_amp)
    then show ?thesis unfolding escapeHtml_Cons by (rule begins_entity_append_left)
  next
    case False
    define j where "j = i - length (escape_char c)"
    with False have i: "i = length (escape_char c) + j" by simp
    with Cons.prems have "j < length (escapeHtml s)" "escapeHtml s ! j = CHR ''&''"
      by (simp_all add: escapeHtml_Cons nth_append)
    then have "begins_entity (escapeHtml s) j" by (rule Cons.IH)
    then show ?thesis unfolding escapeHtml_Cons i by (rule begins_entity_append_right)
  qed
qed

lemma inj_escapeHtml: "inj escapeHtml"
  by (rule inj_on_inverseI [where g = entity_decode]) (rule entity_decode_escapeHtml)

lemma escapeHtml_twice_amp: "escapeHtml (escapeHtml ''&'') \<noteq> escapeHtml ''&''"
  by (simp add: escapeHtml_def)

text \<open>
  Claim C10. For every input, the output of \<^const>\<open>escapeHtml\<close> holds none of the
  characters \<^verbatim>\<open><\<close>, \<^verbatim>\<open>>\<close>, the double quote and the single quote; every
  ampersand of the output begins one of the five entity sequences; the escaper is
  injective, and decoding its output gives the input back. It is not idempotent:
  escaping the escaped ampersand escapes it again.
\<close>

theorem escapeHtml_safe_and_invertible:
  "(\<forall>c \<in> set (escapeHtml s). c \<notin> {CHR ''<'', CHR ''>'', CHR 0x22, CHR 0x27})
   \<and> (\<forall>i < length (escapeHtml s).
          escapeHtml s ! i = CHR ''&'' \<longrightarrow> begins_entity (escapeHtml s) i)
   \<and> inj escapeHtml
   \<and> entity_decode (escapeHtml s) = s
   \<and> escapeHtml (escapeHtml ''&'') \<noteq> escapeHtml ''&''"
proof (intro conjI ballI allI impI)
  fix c assume "c \<in> set (escapeHtml s)"
  then show "c \<notin> {CHR ''<'', CHR ''>'', CHR 0x22, CHR 0x27}"
    using escapeHtml_no_special [of c s] by simp
next
  fix i assume "i < length (escapeHtml s)" "escapeHtml s ! i = CHR ''&''"
  then show "begins_entity (escapeHtml s) i" by (rule escapeHtml_amp)
next
  show "inj escapeHtml" by (rule inj_escapeHtml)
next
  show "entity_decode (escapeHtml s) = s" by (rule entity_decode_escapeHtml)
next
  show "escapeHtml (escapeHtml ''&'') \<noteq> escapeHtml ''&''" by (rule escapeHtml_twice_amp)
qed

theorem escapeHtml_safe_and_invertible_witness:
  "escapeHtml ''<b>&'' = ''&lt;b&gt;&amp;''
   \<and> CHR ''<'' \<notin> set (escapeHtml ''<b>&'')
   \<and> begins_entity (escapeHtml ''<b>&'') 0
   \<and> begins_entity (escapeHtml ''<b>&'') 9
   \<and> entity_decode ''&lt;b&gt;&amp;'' = ''<b>&''"
proof -
  have e: "escapeHtml ''<b>&'' = ''&lt;b&gt;&amp;''"
    by (simp add: escapeHtml_def)
  note t = escapeHtml_safe_and_invertible [of "''<b>&''"]
  from t have "CHR ''<'' \<notin> set (escapeHtml ''<b>&'')" by blast
  moreover from t have "begins_entity (escapeHtml ''<b>&'') 0" by (simp add: e)
  moreover from t have "begins_entity (escapeHtml ''<b>&'') 9" by (simp add: e)
  moreover from t have "entity_decode ''&lt;b&gt;&amp;'' = ''<b>&''" unfolding e by blast
  ultimately show ?thesis using e by blast
qed

section \<open>Properties of the controller\<close>

lemma escapeHtml_validation_message: "escapeHtml validation_message = validation_message"
  by (simp add: escapeHtml_def validation_message_def)

lemma escapeHtml_error_prefix: "escapeHtml error_prefix = error_prefix"
  by (simp add: escapeHtml_def error_prefix_def)

lemma escapeHtml_format_error_message: "escapeHtml format_error_message = format_error_message"
  by (simp add: escapeHtml_def format_error_message_def)

text \<open>
  Claim C7. A trigger of generation while the busy flag is set is a silent no-op:
  the state after the call is the state before it, busy flag, loading indicator,
  results and the log of remote calls included.
\<close>

theorem busy_trigger_is_noop:
  "isLoading st \<Longrightarrow> handleGenerateClick h ai st = st"
  by (simp add: handleGenerateClick_def)

text \<open>
  Claim C6. When the trimmed input is empty (white space only included), the
  trigger sends no request and does not enter the busy state: the log of effects
  and the busy flag are unchanged. When the handler is not busy already, the only
  change is the fixed validation message in the view, in the error state.
\<close>

theorem empty_input_validation:
  assumes "trim (inputValue st) = []"
  shows "events (handleGenerateClick h ai st) = events st
       \<and> isLoading (handleGenerateClick h ai st) = isLoading st
       \<and> (\<not> isLoading st \<longrightarrow>
            handleGenerateClick h ai st =
              st\<lparr>resultsError := True,
                 resultsHtml := ''<p>Please paste a project description first.</p>''\<rparr>)"
proof -
  have "''<p>'' @ escapeHtml validation_message @ ''</p>'' = ''<p>Please paste a project description first.</p>''"
    unfolding escapeHtml_validation_message by (simp add: validation_message_def)
  with assms show ?thesis
    by (simp add: handleGenerateClick_def displayError_def)
qed

text \<open>
  Claim C9. When the first remote stage throws, the view shows the error with the
  message of the thrown \<^verbatim>\<open>Error\<close>, or with the generic fallback when the thrown
  value is no \<^verbatim>\<open>Error\<close>, and the run sends exactly one request, the one of the
  first stage: the second stage is never invoked.
\<close>

theorem summarizer_failure_reported:
  assumes "\<not> isLoading st" and "trim (inputValue st) \<noteq> []"
    and "ai (CleanRequest (trim (inputValue st))) = Inl e"
  shows "resultsHtml (handleGenerateClick h ai st) =
           ''<p>'' @ escapeHtml (error_prefix @
              (case e of ErrorObj m \<Rightarrow> m | NonError \<Rightarrow> unknown_error_message)) @ ''</p>''
       \<and> resultsError (handleGenerateClick h ai st)
       \<and> events (handleGenerateClick h ai st) =
           events st @ [SetLoading True, RemoteCall (CleanRequest (trim (inputValue st))), SetLoading False]"
  using assms
  by (simp add: handleGenerateClick_def try_block_def cleanDescription_def remote_call_def
      setLoading_def catch_block_def displayError_def Let_def)

lemma displayResults_frame:
  assumes "displayResults h data cs st = Inr st'"
  shows "\<exists>html. st' = st\<lparr>resultsHtml := html\<rparr>"
  using assms
  by (auto simp: displayResults_def and_then_def split: sum.splits)

lemma map_option_const_eq:
  "(x = None \<longleftrightarrow> y = None) \<Longrightarrow> map_option (\<lambda>old. c) x = map_option (\<lambda>old. c) y"
  by (cases x; cases y) simp_all

lemma try_block_effects:
  assumes "try_block h ai d st1 = (res, st')"
  shows "\<exists>evs. events st' = events st1 @ evs \<and> SetLoading False \<notin> set evs
           \<and> (loadingMessage st' = None \<longleftrightarrow> loadingMessage st1 = None)"
proof (cases "ai (CleanRequest d)")
  case (Inl e)
  with assms show ?thesis
    by (auto simp: try_block_def cleanDescription_def remote_call_def)
next
  case r1: (Inr r1)
  show ?thesis
  proof (cases "ai (OutlineRequest (text_of r1))")
    case (Inl e)
    with r1 assms show ?thesis
      by (auto simp: try_block_def cleanDescription_def getProposalOutline_def remote_call_def
          setLoading_def Let_def)
  next
    case r2: (Inr r2)
    show ?thesis
    proof (cases "parse_response h r2")
      case (Inl e)
      with r1 r2 assms show ?thesis
        by (auto simp: try_block_def cleanDescription_def getProposalOutline_def remote_call_def
            setLoading_def Let_def)
    next
      case j: (Inr j)
      let ?st3 = "(setLoading True ''Researching latest AI solutions...''
                    (st1\<lparr>events := events st1 @ [RemoteCall (CleanRequest d)]\<rparr>))
                  \<lparr>events := events st1 @ [RemoteCall (CleanRequest d), SetLoading True,
                      RemoteCall (OutlineRequest (text_of r1))]\<rparr>"
      show ?thesis
      proof (cases "displayResults h j (groundingChunks_of r2) ?st3")
        case (Inl e)
        with r1 r2 j assms show ?thesis
          by (auto simp: try_block_def cleanDescription_def getProposalOutline_def remote_call_def
              setLoading_def Let_def)
      next
        case (Inr st4)
        from displayResults_frame [OF Inr] obtain html where "st4 = ?st3\<lparr>resultsHtml := html\<rparr>" ..
        with Inr r1 r2 j assms show ?thesis
          by (auto simp: try_block_def cleanDescription_def getProposalOutline_def remote_call_def
              setLoading_def Let_def)
      qed
    qed
  qed
qed

lemma catch_block_frame:
  "events (catch_block e st) = events st \<and> loadingMessage (catch_block e st) = loadingMessage st"
  by (simp add: catch_block_def displayError_def)

text \<open>
  Claim C8. Every run that entered the busy state, whatever the remote model, the
  parser and the renderer do, ends with the busy flag cleared, the button enabled,
  the indicator hidden and the caption of the indicator set back to the default
  message; the flag is cleared exactly once, by the last effect of the run.
\<close>

theorem busy_flag_cleared_on_exit:
  assumes "\<not> isLoading st" and "trim (inputValue st) \<noteq> []"
  shows "\<exists>evs. events (handleGenerateClick h ai st) =
                 events st @ SetLoading True # evs @ [SetLoading False]
             \<and> SetLoading False \<notin> set evs
             \<and> \<not> isLoading (handleGenerateClick h ai st)
             \<and> \<not> buttonDisabled (handleGenerateClick h ai st)
             \<and> indicatorHidden (handleGenerateClick h ai st)
             \<and> loadingMessage (handleGenerateClick h ai st) =
                 map_option (\<lambda>old. default_loading_message) (loadingMessage st)"
proof -
  define st1 where "st1 = setLoading True ''Cleaning project description...'' st"
  obtain res st' where tb: "try_block h ai (trim (inputValue st)) st1 = (res, st')"
    by (cases "try_block h ai (trim (inputValue st)) st1") blast
  define st2 where "st2 = (case res of Inl error \<Rightarrow> catch_block error st' | Inr u \<Rightarrow> st')"
  from try_block_effects [OF tb] obtain evs where
    all: "events st' = events st1 @ evs \<and> SetLoading False \<notin> set evs
      \<and> (loadingMessage st' = None \<longleftrightarrow> loadingMessage st1 = None)" ..
  from all have evs: "events st' = events st1 @ evs" "SetLoading False \<notin> set evs"
      "loadingMessage st' = None \<longleftrightarrow> loadingMessage st1 = None" by simp_all
  have st2: "events st2 = events st' \<and> loadingMessage st2 = loadingMessage st'"
    by (cases res) (simp_all add: st2_def catch_block_frame)
  have st1: "events st1 = events st @ [SetLoading True]"
    "loadingMessage st1 = None \<longleftrightarrow> loadingMessage st = None"
    by (simp_all add: st1_def setLoading_def)
  have final: "handleGenerateClick h ai st = setLoading False default_loading_message st2"
    using assms tb by (simp add: handleGenerateClick_def st1_def st2_def Let_def)
  have "events (handleGenerateClick h ai st) = events st @ SetLoading True # evs @ [SetLoading False]"
    by (simp add: final setLoading_def st2 evs st1)
  moreover have "loadingMessage (handleGenerateClick h ai st) =
                 map_option (\<lambda>old. default_loading_message) (loadingMessage st)"
  proof -
    have "loadingMessage st2 = None \<longleftrightarrow> loadingMessage st = None"
      using st2 evs(3) st1(2) by simp
    then have "map_option (\<lambda>old. default_loading_message) (loadingMessage st2) =
               map_option (\<lambda>old. default_loading_message) (loadingMessage st)"
      by (rule map_option_const_eq)
    then show ?thesis by (simp add: final setLoading_def)
  qed
  moreover have "\<not> isLoading (handleGenerateClick h ai st)
             \<and> \<not> buttonDisabled (handleGenerateClick h ai st)
             \<and> indicatorHidden (handleGenerateClick h ai st)"
    by (simp add: final setLoading_def)
  ultimately show ?thesis using evs(2) by (intro exI [of _ evs]) simp
qed

text \<open>
  Claim C5. When the response text, after fence stripping and trimming, makes
  \<^verbatim>\<open>JSON.parse\<close> throw, the view shows the dedicated format error through the
  error path: the message is the fixed one whatever the parser threw, it differs
  from the fallback of a remote failure and from the validation message, the view
  holds the error paragraph only, and the run ends not busy.
\<close>

theorem invalid_json_format_error:
  assumes "\<not> isLoading st" and "trim (inputValue st) \<noteq> []"
    and "ai (CleanRequest (trim (inputValue st))) = Inr r1"
    and "ai (OutlineRequest (text_of r1)) = Inr r2"
    and "text_of r2 = Some t"
    and "json_parse h (cleanedText t) = Inl parseError"
  shows "resultsHtml (handleGenerateClick h ai st) =
           ''<p>'' @ error_prefix @ format_error_message @ ''</p>''
       \<and> resultsError (handleGenerateClick h ai st)
       \<and> \<not> isLoading (handleGenerateClick h ai st)
       \<and> format_error_message \<noteq> unknown_error_message
       \<and> format_error_message \<noteq> validation_message"
proof -
  have "escapeHtml (error_prefix @ format_error_message) = error_prefix @ format_error_message"
    by (simp add: escapeHtml_append escapeHtml_error_prefix escapeHtml_format_error_message)
  moreover have "format_error_message \<noteq> unknown_error_message"
    "format_error_message \<noteq> validation_message"
    by (simp_all add: format_error_message_def unknown_error_message_def validation_message_def)
  ultimately show ?thesis using assms
    by (simp add: handleGenerateClick_def try_block_def cleanDescription_def
        getProposalOutline_def remote_call_def parse_response_def and_then_def
        setLoading_def catch_block_def displayError_def Let_def)
qed

lemma trim_example_input: "trim (inputValue example_state) = ''Build a chatbot''"
  by (simp add: example_state_def trim_def is_space_def)

theorem busy_trigger_is_noop_witness:
  "handleGenerateClick example_host failing_remote (example_state\<lparr>isLoading := True\<rparr>) =
     example_state\<lparr>isLoading := True\<rparr>"
  using busy_trigger_is_noop [of "example_state\<lparr>isLoading := True\<rparr>" example_host failing_remote]
  by simp

theorem empty_input_validation_witness:
  "handleGenerateClick example_host failing_remote
     (example_state\<lparr>inputValue := [CHR 0x20, CHR 0x09, CHR 0x0A]\<rparr>) =
   example_state\<lparr>inputValue := [CHR 0x20, CHR 0x09, CHR 0x0A], resultsError := True,
     resultsHtml := ''<p>Please paste a project description first.</p>''\<rparr>"
proof -
  let ?st = "example_state\<lparr>inputValue := [CHR 0x20, CHR 0x09, CHR 0x0A]\<rparr>"
  have blank: "trim (inputValue ?st) = []"
    by (simp add: trim_def is_space_def)
  have idle: "\<not> isLoading ?st"
    by (simp add: example_state_def)
  from empty_input_validation [OF blank, of example_host failing_remote] idle
  show ?thesis by simp
qed

theorem summarizer_failure_reported_witness:
  "resultsHtml (handleGenerateClick example_host failing_remote example_state) =
     ''<p>An error occurred while generating the outline: quota exceeded</p>''
   \<and> events (handleGenerateClick example_host failing_remote example_state) =
     [SetLoading True, RemoteCall (CleanRequest ''Build a chatbot''), SetLoading False]"
proof -
  have idle: "\<not> isLoading example_state" by (simp add: example_state_def)
  have filled: "trim (inputValue example_state) \<noteq> []" by (simp add: trim_example_input)
  have fails: "failing_remote (CleanRequest (trim (inputValue example_state))) =
                 Inl (ErrorObj ''quota exceeded'')"
    by (simp add: failing_remote_def)
  have esc: "escapeHtml ''quota exceeded'' = ''quota exceeded''" by (simp add: escapeHtml_def)
  from summarizer_failure_reported [where st = example_state and ai = failing_remote
      and h = example_host, OF idle filled fails]
  show ?thesis
    by (simp add: trim_example_input escapeHtml_append escapeHtml_error_prefix esc)
       (simp add: error_prefix_def example_state_def)
qed

theorem busy_flag_cleared_on_exit_witness:
  "\<not> isLoading (handleGenerateClick example_host truncated_remote example_state)
   \<and> loadingMessage (handleGenerateClick example_host truncated_remote example_state) =
       Some default_loading_message
   \<and> count_list (events (handleGenerateClick example_host truncated_remote example_state))
        (SetLoading False) = 1"
proof -
  have idle: "\<not> isLoading example_state" by (simp add: example_state_def)
  have filled: "trim (inputValue example_state) \<noteq> []" by (simp add: trim_example_input)
  from busy_flag_cleared_on_exit [OF idle filled, of example_host truncated_remote]
  show ?thesis by (auto simp: example_state_def count_list_0_iff)
qed

theorem invalid_json_format_error_witness:
  \<open>resultsHtml (handleGenerateClick example_host truncated_remote example_state) =
     ''<p>An error occurred while generating the outline: The AI returned an invalid format. Please try again.</p>''
   \<and> resultsError (handleGenerateClick example_host truncated_remote example_state)\<close>
proof -
  have idle: "\<not> isLoading example_state" by (simp add: example_state_def)
  have filled: "trim (inputValue example_state) \<noteq> []" by (simp add: trim_example_input)
  have r1: "truncated_remote (CleanRequest (trim (inputValue example_state))) =
              Inr \<lparr>text_of = Some ''chatbot'', groundingChunks_of = None\<rparr>"
    by (simp add: truncated_remote_def)
  have r2: \<open>truncated_remote (OutlineRequest (text_of \<lparr>text_of = Some ''chatbot'', groundingChunks_of = None\<rparr>)) =
              Inr \<lparr>text_of = Some ''{"painPoints": ['', groundingChunks_of = None\<rparr>\<close>
    by (simp add: truncated_remote_def)
  have t: \<open>text_of \<lparr>text_of = Some ''{"painPoints": ['', groundingChunks_of = None\<rparr> = Some ''{"painPoints": [''\<close>
    by simp
  have bad: \<open>json_parse example_host (cleanedText ''{"painPoints": ['') =
               Inl (ErrorObj ''Unexpected end of JSON input'')\<close>
    by (simp add: example_host_def cleanedText_def strip_fences_def trim_def is_space_def
        closing_fence_def)
  from invalid_json_format_error [where st = example_state and ai = truncated_remote
      and h = example_host, OF idle filled r1 r2 t bad]
  show ?thesis by (simp add: error_prefix_def format_error_message_def)
qed

section \<open>Properties of the fence stripping\<close>

lemma backtick_not_space: "\<not> is_space (CHR 0x60)"
  by (simp add: is_space_def)

lemma dropWhile_spaces_append:
  "list_all is_space ws \<Longrightarrow> dropWhile is_space (ws @ s) = dropWhile is_space s"
  by (induction ws) simp_all

lemma trim_dropWhile: "trim (dropWhile is_space s) = trim s"
  by (simp add: trim_def dropWhile_idem)

lemma trim_all_space: "list_all is_space s \<Longrightarrow> trim s = []"
proof -
  assume "list_all is_space s"
  then have "\<forall>x \<in> set s. is_space x" by (simp only: list_all_iff)
  then have "dropWhile is_space s = []" by (simp only: dropWhile_eq_Nil_conv)
  then show ?thesis by (simp only: trim_def rev.simps dropWhile.simps)
qed

lemma trim_spaces_right:
  assumes "list_all is_space ws"
  shows "trim (s @ ws) = trim s"
proof (cases "dropWhile is_space s = []")
  case True
  then have "\<forall>x \<in> set s. is_space x" by (simp only: dropWhile_eq_Nil_conv)
  then have s: "list_all is_space s" by (simp only: list_all_iff)
  with assms have "list_all is_space (s @ ws)" by simp
  then have "trim (s @ ws) = []" by (rule trim_all_space)
  moreover have "trim s = []" using s by (rule trim_all_space)
  ultimately show ?thesis by simp
next
  case False
  then have "\<not> (\<forall>x \<in> set s. is_space x)" by simp
  then obtain x where x: "x \<in> set s" "\<not> is_space x" by blast
  then have "dropWhile is_space (s @ ws) = dropWhile is_space s @ ws"
    by (rule dropWhile_append1)
  then show ?thesis using assms by (simp add: trim_def dropWhile_spaces_append)
qed

lemma fence_in_tail: "CHR 0x60 \<in> set (drop 2 (y @ ''```'' @ ws))"
  by (induction y rule: induct_list012) simp_all

lemma no_fence_before_fence: "\<not> closing_fence (c # y @ ''```'' @ ws)"
proof
  assume "closing_fence (c # y @ ''```'' @ ws)"
  then have "list_all is_space (drop 2 (y @ ''```'' @ ws))"
    by (simp add: closing_fence_def)
  with fence_in_tail [of y ws] have "is_space (CHR 0x60)"
    unfolding list_all_iff by blast
  then show False by (simp add: is_space_def)
qed

lemma strip_closing_fence:
  assumes "list_all is_space ws"
  shows "strip_closing (y @ ''```'' @ ws) = y"
proof (induction y)
  case Nil
  from assms have "closing_fence (''```'' @ ws)" by (simp add: closing_fence_def)
  then show ?case by simp
next
  case (Cons c y)
  have "strip_closing (c # y @ ''```'' @ ws) = c # strip_closing (y @ ''```'' @ ws)"
    using no_fence_before_fence [of c y ws] by (simp only: strip_closing.simps if_False)
  with Cons show ?case by simp
qed

lemma strip_fences_opening:
  assumes "list_all is_space ws"
  shows "strip_fences (''```json'' @ ws @ s) = strip_closing (dropWhile is_space s)"
  using assms by (simp add: strip_fences_def dropWhile_spaces_append)

text \<open>
  Where the text begins with \<^verbatim>\<open>```json\<close>, the fences are removed for every body.
\<close>

lemma cleanedText_fenced:
  assumes "list_all is_space ws1" "list_all is_space ws2" "list_all is_space ws3"
  shows "cleanedText (fenced ''```json'' ws1 body ws2 ws3) = trim body"
proof -
  have "strip_fences (fenced ''```json'' ws1 body ws2 ws3) =
        strip_closing (dropWhile is_space ((body @ ws2) @ CHR 0x60 # ''``'' @ ws3))"
    using strip_fences_opening [OF assms(1), of "body @ ws2 @ ''```'' @ ws3"]
    by (simp add: fenced_def)
  also have "dropWhile is_space ((body @ ws2) @ CHR 0x60 # ''``'' @ ws3) =
        dropWhile is_space (body @ ws2) @ CHR 0x60 # ''``'' @ ws3"
    using backtick_not_space by (rule dropWhile_append3)
  also have "strip_closing (dropWhile is_space (body @ ws2) @ CHR 0x60 # ''``'' @ ws3) =
        dropWhile is_space (body @ ws2)"
    using strip_closing_fence [OF assms(3), of "dropWhile is_space (body @ ws2)"] by simp
  finally have "cleanedText (fenced ''```json'' ws1 body ws2 ws3) = trim (dropWhile is_space (body @ ws2))"
    by (simp add: cleanedText_def)
  also have "\<dots> = trim (body @ ws2)" by (rule trim_dropWhile)
  also have "\<dots> = trim body" using assms(2) by (rule trim_spaces_right)
  finally show ?thesis .
qed

text \<open>
  Claim C2. The cleanup strips an opening fence in either form and a closing fence,
  is idempotent, and a body wrapped in a fence parses like the body. The code
  comment of line 98 says the same of a response wrapped in markdown. The pattern
  does so for \<^verbatim>\<open>```json\<close> at the very start of the text only: a bare opening
  fence is left in place, and so is \<^verbatim>\<open>```json\<close> behind leading white space, which
  the trim removes only after the pattern has been applied, so that a second pass
  changes the text again. In both cases the closing fence alone goes, and the
  valid body ends in the format error.
\<close>

theorem fence_left_in_place:
  "cleanedText ''```json\<newline>{}\<newline>```'' = ''{}''
   \<and> cleanedText ''```\<newline>{}\<newline>```'' = ''```\<newline>{}''
   \<and> cleanedText ''\<newline>```json\<newline>{}\<newline>```'' = ''```json\<newline>{}''
   \<and> cleanedText (cleanedText ''\<newline>```json\<newline>{}\<newline>```'') = ''{}''
   \<and> json_parse example_host ''{}'' = Inr (JObj [])
   \<and> resultsError (handleGenerateClick example_host bare_fence_remote example_state)
   \<and> resultsHtml (handleGenerateClick example_host bare_fence_remote example_state) =
       ''<p>An error occurred while generating the outline: The AI returned an invalid format. Please try again.</p>''"
proof -
  have c: "cleanedText ''```json\<newline>{}\<newline>```'' = ''{}''"
    "cleanedText ''```\<newline>{}\<newline>```'' = ''```\<newline>{}''"
    "cleanedText ''\<newline>```json\<newline>{}\<newline>```'' = ''```json\<newline>{}''"
    "cleanedText ''```json\<newline>{}'' = ''{}''"
    by (simp_all add: cleanedText_def strip_fences_def closing_fence_def trim_def is_space_def)
  have p: "json_parse example_host ''{}'' = Inr (JObj [])"
    "json_parse example_host ''```\<newline>{}'' = Inl (ErrorObj ''Unexpected end of JSON input'')"
    by (simp_all add: example_host_def)
  have r: "resultsError (handleGenerateClick example_host bare_fence_remote example_state)
   \<and> resultsHtml (handleGenerateClick example_host bare_fence_remote example_state) =
       ''<p>'' @ error_prefix @ format_error_message @ ''</p>''"
    using trim_example_input
    by (simp add: handleGenerateClick_def try_block_def cleanDescription_def
        getProposalOutline_def remote_call_def parse_response_def and_then_def
        setLoading_def catch_block_def displayError_def Let_def bare_fence_remote_def
        c p escapeHtml_append escapeHtml_error_prefix escapeHtml_format_error_message)
       (simp add: example_state_def)
  from c p(1) r show ?thesis by (simp add: error_prefix_def format_error_message_def)
qed

section \<open>Properties of the renderer\<close>

lemma read_field_field: "data \<noteq> JNull \<Longrightarrow> read_field h data k = Inr (field data k)"
  by (cases data) (simp_all add: field_def)

lemma map_throwing_strings:
  "map_throwing (list_item h) (map JStr ss) = Inr (map (\<lambda>s. ''<li>'' @ escapeHtml s @ ''</li>'') ss)"
  by (induction ss) (simp_all add: list_item_def and_then_def)

lemma strings_of_Some: "strings_of xs = Some ss \<Longrightarrow> xs = map JStr ss"
  by (induction xs arbitrary: ss rule: strings_of.induct) auto

lemma list_fragment:
  assumes "list_section opn cls v = Some p"
  shows "and_then (is_positive h (optional_length v)) (\<lambda>shown.
           if shown
           then and_then (map_join h (list_item h) v) (\<lambda>items. Inr (opn @ items @ cls))
           else Inr []) = Inr p"
proof (cases v)
  case None
  with assms show ?thesis by (simp add: and_then_def)
next
  case (Some j)
  show ?thesis
  proof (cases j)
    case (JArr xs)
    show ?thesis
    proof (cases "xs = []")
      case True
      with assms Some JArr show ?thesis by (simp add: and_then_def)
    next
      case False
      with assms Some JArr obtain ss where ss: "strings_of xs = Some ss"
        "p = opn @ list_items ss @ cls" by auto
      from ss(1) have "xs = map JStr ss" by (rule strings_of_Some)
      with False Some JArr ss(2) show ?thesis
        by (simp add: and_then_def map_throwing_strings list_items_def)
    qed
  qed (use assms Some in \<open>simp_all add: and_then_def split: if_splits option.splits\<close>)
qed

lemma solution_fragment:
  assumes "solution_section v = Some s"
  shows "(if truthy v
          then and_then (escapeHtml_value h v) (\<lambda>t. Inr (solution_open @ t @ solution_close))
          else Inr []) = Inr s"
  using assms
  by (cases v rule: solution_section.cases) (auto simp: and_then_def split: if_splits)

lemma list_section_not_array:
  "list_section opn cls v = Some p \<Longrightarrow> (\<forall>xs. v \<noteq> Some (JArr xs)) \<Longrightarrow> p = []"
  by (cases "(opn, cls, v)" rule: list_section.cases) (auto split: if_splits)

lemma solution_section_not_string:
  "solution_section v = Some s \<Longrightarrow> (\<forall>x. v \<noteq> Some (JStr x)) \<Longrightarrow> s = []"
  by (cases v rule: solution_section.cases) (auto split: if_splits)

text \<open>
  Claim C4, as the code has it. For a payload other than \<^verbatim>\<open>null\<close> whose fields
  are each absent, of the declared shape, or of a form for which the code leaves
  the section out (for a list field \<^verbatim>\<open>null\<close>, a boolean, a number, the empty
  string, the empty array, an object without a \<^verbatim>\<open>length\<close>; for the solution
  \<^verbatim>\<open>null\<close>, \<^verbatim>\<open>false\<close>, zero, the empty string), and for citations whose sources
  fragment is rendered, the renderer does not throw: it writes the view from the
  four fragments, each field deciding its own fragment only. A list field that is
  no array and a solution that is no string leave out their own section and
  nothing else.
\<close>

theorem missing_fields_omit_sections:
  assumes "data \<noteq> JNull"
    and "list_section painPoints_open painPoints_close (field data ''painPoints'') = Some p"
    and "solution_section (field data ''proposedSolution'') = Some s"
    and "list_section tech_open tech_close (field data ''recommendedTech'') = Some t"
    and "sourcesHtml h cs = Inr c"
  shows "displayResults h data cs st = Inr (st\<lparr>resultsHtml := results_template p s t c\<rparr>)
       \<and> ((\<forall>xs. field data ''painPoints'' \<noteq> Some (JArr xs)) \<longrightarrow> p = [])
       \<and> ((\<forall>x. field data ''proposedSolution'' \<noteq> Some (JStr x)) \<longrightarrow> s = [])
       \<and> ((\<forall>xs. field data ''recommendedTech'' \<noteq> Some (JArr xs)) \<longrightarrow> t = [])"
proof -
  have pp: "painPointsHtml h data = Inr p"
    using assms(1) list_fragment [OF assms(2), of h]
    by (simp add: painPointsHtml_def read_field_field and_then_def)
  have ps: "solutionHtml h data = Inr s"
    using assms(1) solution_fragment [OF assms(3), of h]
    by (simp add: solutionHtml_def read_field_field and_then_def)
  have rt: "techHtml h data = Inr t"
    using assms(1) list_fragment [OF assms(4), of h]
    by (simp add: techHtml_def read_field_field and_then_def)
  have "displayResults h data cs st = Inr (st\<lparr>resultsHtml := results_template p s t c\<rparr>)"
    by (simp add: displayResults_def pp ps rt assms(5) and_then_def)
  then show ?thesis
    using list_section_not_array [OF assms(2)] solution_section_not_string [OF assms(3)]
      list_section_not_array [OF assms(4)] by blast
qed

theorem missing_fields_omit_sections_witness:
  "displayResults example_host tolerated_outline None example_state =
     Inr (example_state\<lparr>resultsHtml :=
       results_template (painPoints_open @ ''<li>A</li><li>B</li>'' @ painPoints_close)
         [] [] []\<rparr>)"
proof -
  have nn: "tolerated_outline \<noteq> JNull" by (simp add: tolerated_outline_def)
  have pp: "list_section painPoints_open painPoints_close (field tolerated_outline ''painPoints'') =
      Some (painPoints_open @ ''<li>A</li><li>B</li>'' @ painPoints_close)"
    by (simp add: tolerated_outline_def field_def list_items_def escapeHtml_def)
  have ps: "solution_section (field tolerated_outline ''proposedSolution'') = Some []"
    by (simp add: tolerated_outline_def field_def)
  have rt: "list_section tech_open tech_close (field tolerated_outline ''recommendedTech'') = Some []"
    by (simp add: tolerated_outline_def field_def)
  have src: "sourcesHtml example_host None = Inr []" by (simp add: sourcesHtml_def)
  from missing_fields_omit_sections [OF nn pp ps rt src, of example_state]
  show ?thesis by (elim conjE)
qed

text \<open>
  The claim as it is written fails on a wrong-typed field: a string where the list
  of pain points belongs has a positive length and no \<^verbatim>\<open>map\<close>, the renderer
  throws, and the controller reports the exception through the error path. It also
  fails on the payload \<^verbatim>\<open>null\<close>, which parses and on which the first property read
  throws.
\<close>

theorem missing_fields_omit_sections_counterexample:
  \<open>displayResults example_host (JObj [(''painPoints'', JStr ''abc'')]) None example_state =
     Inl (ErrorObj ''data.painPoints.map is not a function'')
   \<and> json_parse example_host ''{"painPoints":"abc"}'' = Inr (JObj [(''painPoints'', JStr ''abc'')])
   \<and> resultsError (handleGenerateClick example_host wrong_type_remote example_state)
   \<and> resultsHtml (handleGenerateClick example_host wrong_type_remote example_state) =
       ''<p>An error occurred while generating the outline: data.painPoints.map is not a function</p>''
   \<and> displayResults (example_host\<lparr>type_error_text := ''Cannot read properties of null''\<rparr>)
         JNull None example_state = Inl (ErrorObj ''Cannot read properties of null'')\<close>
proof -
  have d: "displayResults example_host (JObj [(''painPoints'', JStr ''abc'')]) None st =
     Inl (ErrorObj ''data.painPoints.map is not a function'')" for st
    by (simp add: displayResults_def painPointsHtml_def and_then_def type_error_def
        example_host_def)
  have c: \<open>cleanedText ''{"painPoints":"abc"}'' = ''{"painPoints":"abc"}''\<close>
    by (simp add: cleanedText_def strip_fences_def closing_fence_def trim_def is_space_def)
  have p: \<open>json_parse example_host ''{"painPoints":"abc"}'' =
      Inr (JObj [(''painPoints'', JStr ''abc'')])\<close>
    by (simp add: example_host_def)
  have e: "escapeHtml ''data.painPoints.map is not a function'' =
      ''data.painPoints.map is not a function''"
    by (simp add: escapeHtml_def)
  have r: \<open>resultsError (handleGenerateClick example_host wrong_type_remote example_state)
   \<and> resultsHtml (handleGenerateClick example_host wrong_type_remote example_state) =
       ''<p>'' @ error_prefix @ ''data.painPoints.map is not a function'' @ ''</p>''\<close>
    using trim_example_input
    by (simp add: handleGenerateClick_def try_block_def cleanDescription_def
        getProposalOutline_def remote_call_def parse_response_def and_then_def
        setLoading_def catch_block_def displayError_def Let_def wrong_type_remote_def
        c p d escapeHtml_append escapeHtml_error_prefix e)
       (simp add: example_state_def)
  have n: "displayResults (example_host\<lparr>type_error_text := ''Cannot read properties of null''\<rparr>)
         JNull None example_state = Inl (ErrorObj ''Cannot read properties of null'')"
    by (simp add: displayResults_def painPointsHtml_def and_then_def type_error_def)
  from d p r n show ?thesis by (simp add: error_prefix_def)
qed








text \<open>
  Claim C1. Every string the renderer inserts is escaped first, so that a field
  value with \<^verbatim>\<open><script>\<close> never appears as markup. The code escapes the pain
  points, the solution, the technologies and the link text, but it writes the
  \<^verbatim>\<open>uri\<close> of a citation into the \<^verbatim>\<open>href\<close> attribute as it is: on the citation
  below the view holds the script element unescaped.
\<close>

theorem href_inserted_unescaped:
  \<open>displayResults example_host (JObj []) (Some [script_chunk]) example_state =
     Inr (example_state\<lparr>resultsHtml :=
       results_template [] [] []
         (sources_open @ link_open @ ''"><script>alert(1)</script>'' @ link_middle @ ''x''
            @ link_close @ sources_close)\<rparr>)\<close>
  by (simp add: displayResults_def painPointsHtml_def solutionHtml_def techHtml_def
      sourcesHtml_def source_item_def link_text_def escapeHtml_text_def interpolate_def
      and_then_def script_chunk_def escapeHtml_def)

end
